theory Spec2Isabelle
  imports Complex_Main "HOL-Library.Word"
begin

unbundle bit_operations_syntax

section \<open>Octet strings and names\<close>

text \<open>
  A Python \<open>bytes\<close> value is a list of octets.  Hash names are Python 3 \<open>str\<close> values
  over the code points 0..255, which is what an Isabelle \<open>char\<close> holds.
\<close>

type_synonym octet = "8 word"
type_synonym bytes = "octet list"

text \<open>The exceptions raised by \<open>passlib.crypto.digest\<close>, as values.  The spec's names are
  \<open>UnknownHash\<close> (\<open>UnknownHashError\<close>), \<open>UnsupportedIdentifierKind\<close> (\<open>ExpectedTypeError\<close>),
  \<open>InvalidParameter\<close> (\<open>ValueError\<close>), \<open>KeyTooLong\<close> (\<open>OverflowError\<close>),
  \<open>UnsupportedDigestSize\<close> (\<open>NotImplementedError\<close>) and \<open>ConstructorSanityFailure\<close>
  (\<open>RuntimeError\<close>).\<close>

datatype error =
    UnknownHashError string
  | ExpectedTypeError
  | ValueError string
  | OverflowError string
  | NotImplementedError
  | RuntimeError
  | AssertionError
  | TypeError
  | ZeroDivisionError
  | StructError
  | RecursionError

subsection \<open>String helpers of \<open>_get_hash_aliases\<close>\<close>

definition is_space :: "char \<Rightarrow> bool" where
  "is_space c \<longleftrightarrow> (of_char c :: nat) \<in> set [9, 10, 11, 12, 13, 28, 29, 30, 31, 32, 133, 160]"

definition strip :: "string \<Rightarrow> string" where
  "strip s = rev (dropWhile is_space (rev (dropWhile is_space s)))"

definition lower_char :: "char \<Rightarrow> char" where
  "lower_char c =
     (let n = (of_char c :: nat)
      in if (65 \<le> n \<and> n \<le> 90) \<or> (192 \<le> n \<and> n \<le> 222 \<and> n \<noteq> 215)
         then char_of (n + 32) else c)"

definition lower :: "string \<Rightarrow> string" where
  "lower s = map lower_char s"

text \<open>\<open>re.sub("[_ /]", "-", s)\<close>\<close>

definition sub_separators :: "string \<Rightarrow> string" where
  "sub_separators s = map (\<lambda>c. if c \<in> set ''_ /'' then CHR ''-'' else c) s"

definition startswith :: "string \<Rightarrow> string \<Rightarrow> bool" where
  "startswith s p \<longleftrightarrow> take (length p) s = p"

definition endswith :: "string \<Rightarrow> string \<Rightarrow> bool" where
  "endswith s p \<longleftrightarrow> length p \<le> length s \<and> drop (length s - length p) s = p"

definition is_alpha_lower :: "char \<Rightarrow> bool" where
  "is_alpha_lower c \<longleftrightarrow> c \<in> set ''abcdefghijklmnopqrstuvwxyz''"

definition is_digit :: "char \<Rightarrow> bool" where
  "is_digit c \<longleftrightarrow> c \<in> set ''0123456789''"

subsection \<open>The pattern \<open>^(?P<name>[a-z]+)-?(?P<rev>\d)?-?(?P<size>\d{3,4})?$\<close>\<close>

text \<open>
  Each optional piece of the pattern is greedy: the matcher first tries to consume it and
  backtracks to the empty match.  The functions below list the alternatives of one piece in
  the order the backtracking matcher tries them; a group that did not take part in the match
  is the empty string (Python's \<open>None\<close>, which is falsy like the empty string).
  \<open>$\<close> matches at the end of the string and before a final newline.
\<close>

definition opt_hyphen :: "string \<Rightarrow> string list" where
  "opt_hyphen s = (case s of c # r \<Rightarrow> if c = CHR ''-'' then [r, s] else [s] | [] \<Rightarrow> [s])"

definition opt_rev :: "string \<Rightarrow> (string \<times> string) list" where
  "opt_rev s = (case s of c # r \<Rightarrow> if is_digit c then [([c], r), ([], s)] else [([], s)]
                | [] \<Rightarrow> [([], s)])"

definition opt_size :: "string \<Rightarrow> (string \<times> string) list" where
  "opt_size s =
     (let n = length (takeWhile is_digit s)
      in (if 4 \<le> n then [(take 4 s, drop 4 s)] else []) @
         (if 3 \<le> n then [(take 3 s, drop 3 s)] else []) @
         [([], s)])"

definition at_end :: "string \<Rightarrow> bool" where
  "at_end s \<longleftrightarrow> s = [] \<or> s = [CHR 0x0A]"

definition match_name :: "string \<Rightarrow> (string \<times> string \<times> string) option" where
  "match_name s =
     (let letters = takeWhile is_alpha_lower s; rest = dropWhile is_alpha_lower s
      in if letters = [] then None
         else (case [(rev', sz). r1 \<leftarrow> opt_hyphen rest, (rev', r2) \<leftarrow> opt_rev r1,
                        r3 \<leftarrow> opt_hyphen r2, (sz, r4) \<leftarrow> opt_size r3, at_end r4] of
                 [] \<Rightarrow> None
               | (rev', sz) # _ \<Rightarrow> Some (letters, rev', sz)))"

subsection \<open>The table of known names and \<open>_get_hash_aliases\<close>\<close>

text \<open>A row \<open>(hashlib name, iana name, aliases ...)\<close> is a tuple of two or more names.\<close>

type_synonym name_row = "string \<times> string \<times> string list"

definition row_names :: "name_row \<Rightarrow> string list" where
  "row_names r = fst r # fst (snd r) # snd (snd r)"

definition known_hash_names :: "name_row list" where
  "known_hash_names =
     [(''md2'', ''md2'', []),
      (''md5'', ''md5'', []),
      (''sha1'', ''sha-1'', []),
      (''sha224'', ''sha-224'', [''sha2-224'']),
      (''sha256'', ''sha-256'', [''sha2-256'']),
      (''sha384'', ''sha-384'', [''sha2-384'']),
      (''sha512'', ''sha-512'', [''sha2-512'']),
      (''md4'', ''md4'', []),
      (''sha'', ''sha-0'', [''sha0'']),
      (''ripemd'', ''ripemd'', []),
      (''ripemd160'', ''ripemd-160'', [])]"

definition check_table :: "string \<Rightarrow> name_row option" where
  "check_table name = find (\<lambda>row. name \<in> set (row_names row)) known_hash_names"

text \<open>Lines 111-115: trimming, lowercasing, separators, the SCRAM prefix and suffix.\<close>

definition clean_name :: "string \<Rightarrow> string" where
  "clean_name orig =
     (let name = sub_separators (lower (strip orig))
      in if startswith name ''scram-''
         then (let name = drop 6 name
               in if endswith name ''-plus'' then take (length name - 5) name else name)
         else name)"

definition get_hash_aliases :: "string \<Rightarrow> name_row" where
  "get_hash_aliases orig =
     (let name = clean_name orig
      in case check_table name of
           Some row \<Rightarrow> row
         | None \<Rightarrow>
             (case match_name name of
                Some (letters, rev', sz) \<Rightarrow>
                  (let iana_name = letters @ rev';
                       hashlib_name = iana_name;
                       iana_name = (if sz \<noteq> [] then iana_name @ ''-'' @ sz else iana_name);
                       hashlib_name = (if sz \<noteq> []
                                       then (if rev' \<noteq> [] then hashlib_name @ ''_'' else hashlib_name) @ sz
                                       else hashlib_name)
                   in case check_table iana_name of
                        Some row \<Rightarrow> row
                      | None \<Rightarrow> (hashlib_name, iana_name, []))
              | None \<Rightarrow>
                  (map (\<lambda>c. if c = CHR ''-'' then CHR ''_'' else c) name, name, [])))"

section \<open>Hash constructors, descriptors and the platform\<close>

text \<open>
  A hash constructor such as \<open>hashlib.sha256\<close> is an object with an identity (\<open>c_id\<close>: two
  Python references are the same object iff the identities agree).  \<open>c_new c msg\<close> is the hash
  object \<open>const(msg)\<close> (so \<open>const()\<close> is \<open>c_new c []\<close>), \<open>c_update\<close> is \<open>hash.update\<close>
  on a private copy, \<open>c_digest\<close> is \<open>hash.digest()\<close>, and \<open>c_digest_size\<close>, \<open>c_block_size\<close>,
  \<open>c_name\<close> are the attributes \<open>digest_size\<close>, \<open>block_size\<close>, \<open>name\<close> the hash objects
  report.  The type \<open>'s\<close> is the internal state of the hash objects.  A wrapper made by
  \<open>_get_hash_const\<close> around \<open>hashlib.new\<close> is a new function object at every call.
\<close>

datatype const_id = Static nat | Wrapper nat

record 's hash_const =
  c_id :: const_id
  c_new :: "bytes \<Rightarrow> 's"
  c_update :: "'s \<Rightarrow> bytes \<Rightarrow> 's"
  c_digest :: "'s \<Rightarrow> bytes"
  c_digest_size :: nat
  c_block_size :: nat
  c_name :: string

text \<open>Class \<open>HashInfo\<close>.  \<open>hi_id\<close> is the identity of the instance; the sizes are \<open>None\<close>
  when the constructor is.\<close>

record 's HashInfo =
  hi_id :: nat
  hi_name :: string
  hi_iana_name :: string
  hi_aliases :: "string list"
  hi_const :: "'s hash_const option"
  hi_digest_size :: "nat option"
  hi_block_size :: "nat option"

text \<open>\<open>HashInfo.__init__\<close>, lines 386-414, for the instance with identity \<open>i\<close>.  The check of
  the reported name only warns.\<close>

definition HashInfo_init ::
  "nat \<Rightarrow> 's hash_const option \<Rightarrow> name_row \<Rightarrow> error + 's HashInfo" where
  "HashInfo_init i const names =
     (case const of
        None \<Rightarrow>
          Inr \<lparr>hi_id = i, hi_name = fst names, hi_iana_name = fst (snd names),
               hi_aliases = snd (snd names), hi_const = None,
               hi_digest_size = None, hi_block_size = None\<rparr>
      | Some c \<Rightarrow>
          (let hash = c_new c []
           in if length (c_digest c hash) \<noteq> c_digest_size c then Inl RuntimeError
              else Inr \<lparr>hi_id = i, hi_name = fst names, hi_iana_name = fst (snd names),
                        hi_aliases = snd (snd names), hi_const = Some c,
                        hi_digest_size = Some (c_digest_size c),
                        hi_block_size = Some (c_block_size c)\<rparr>))"

text \<open>\<open>SequenceMixin\<close> compares two records by \<open>_as_tuple()\<close>, that is by
  \<open>(const, digest_size, block_size)\<close>, the constructor by identity.\<close>

definition as_tuple :: "'s HashInfo \<Rightarrow> const_id option \<times> nat option \<times> nat option" where
  "as_tuple info = (map_option c_id (hi_const info), hi_digest_size info, hi_block_size info)"

text \<open>
  What the module takes from its environment: the attributes of \<open>hashlib\<close> that are
  constructors, the algorithms \<open>hashlib.new\<close> accepts, passlib's own MD4, the flag \<open>PY3\<close>,
  the environment variable \<open>PASSLIB_PBKDF2_BACKEND\<close>, whether the machine word has 64 bits
  (\<open>sys_bits >= 64\<close>) and its byte order, the two optional accelerated PBKDF2 functions as
  lines 12-31 leave them (\<open>None\<close> when the import failed or was ignored), and
  \<open>passlib.utils.int_to_bytes\<close>.  An accelerated function gets
  \<open>(name, secret, salt, rounds, keylen)\<close>.
\<close>

type_synonym pbkdf2_backend = "string \<Rightarrow> bytes \<Rightarrow> bytes \<Rightarrow> int \<Rightarrow> int option \<Rightarrow> error + bytes"

record 's platform =
  hashlib_attr :: "string \<Rightarrow> 's hash_const option"
  hashlib_new :: "string \<Rightarrow> 's hash_const option"
  builtin_md4 :: "'s hash_const"
  PY3 :: bool
  env_PASSLIB_PBKDF2_BACKEND :: "string option"
  have_64_bit :: bool
  little_endian :: bool
  imported_fast_pbkdf2_hmac :: "pbkdf2_backend option"
  imported_stdlib_pbkdf2_hmac :: "pbkdf2_backend option"
  int_to_bytes :: "int \<Rightarrow> nat \<Rightarrow> error + bytes"

section \<open>The digest resolver\<close>

text \<open>The module's state: \<open>_hash_info_cache\<close>, keyed by name strings and by constructor
  objects, and the counters that give new objects their identities.\<close>

datatype cache_key = KName string | KConst const_id

record 's resolver_state =
  cache :: "cache_key \<Rightarrow> 's HashInfo option"
  next_info :: nat
  next_wrapper :: nat

definition initial_state :: "'s resolver_state" where
  "initial_state = \<lparr>cache = (\<lambda>_. None), next_info = 0, next_wrapper = 0\<rparr>"

datatype 's ident = Name string | Info "'s HashInfo" | Const "'s hash_const" | Other

text \<open>\<open>_get_hash_const\<close>, lines 170-203.\<close>

definition get_hash_const ::
  "'s platform \<Rightarrow> 's resolver_state \<Rightarrow> string \<Rightarrow> 's hash_const option \<times> 's resolver_state" where
  "get_hash_const p st name =
     (case (if \<not> startswith name ''_'' \<and> name \<notin> set [''new'', ''algorithms'']
            then hashlib_attr p name else None) of
        Some c \<Rightarrow> (Some c, st)
      | None \<Rightarrow>
          (case hashlib_new p name of
             Some h \<Rightarrow> (Some (h\<lparr>c_id := Wrapper (next_wrapper st)\<rparr>),
                         st\<lparr>next_wrapper := Suc (next_wrapper st)\<rparr>)
           | None \<Rightarrow> if name = ''md4'' then (Some (builtin_md4 p), st) else (None, st)))"

text \<open>\<open>cache[digest]\<close> at line 234: a \<open>HashInfo\<close> or a value of another kind is not a key
  of the cache (\<open>KeyError\<close> or \<open>TypeError\<close>, both caught).\<close>

definition cache_get :: "'s resolver_state \<Rightarrow> 's ident \<Rightarrow> 's HashInfo option" where
  "cache_get st digest =
     (case digest of
        Name s \<Rightarrow> cache st (KName s)
      | Const c \<Rightarrow> cache st (KConst (c_id c))
      | Info i \<Rightarrow> None
      | Other \<Rightarrow> None)"

text \<open>Lines 303-306: the loop over \<open>name_list\<close>.  A failed assertion leaves the entries
  written so far.\<close>

fun cache_names ::
  "'s HashInfo \<Rightarrow> string list \<Rightarrow> 's resolver_state \<Rightarrow> error option \<times> 's resolver_state" where
  "cache_names info [] st = (None, st)"
| "cache_names info (n # ns) st =
     (if n \<noteq> [] then
        (case cache st (KName n) of
           None \<Rightarrow> cache_names info ns (st\<lparr>cache := (cache st)(KName n \<mapsto> info)\<rparr>)
         | Some old \<Rightarrow>
             if as_tuple old = as_tuple info
             then cache_names info ns (st\<lparr>cache := (cache st)(KName n \<mapsto> info)\<rparr>)
             else (Some AssertionError, st))
      else cache_names info ns st)"

text \<open>Lines 297-307: create the instance, populate the cache.\<close>

definition new_instance ::
  "'s resolver_state \<Rightarrow> 's hash_const \<Rightarrow> name_row \<Rightarrow> bool \<Rightarrow>
     (error + 's HashInfo) \<times> 's resolver_state" where
  "new_instance st const name_list cache_by_name =
     (case HashInfo_init (next_info st) (Some const) name_list of
        Inl e \<Rightarrow> (Inl e, st)
      | Inr info \<Rightarrow>
          (let st1 = st\<lparr>next_info := Suc (next_info st),
                        cache := (cache st)(KConst (c_id const) \<mapsto> info)\<rparr>
           in if cache_by_name
              then (case cache_names info (row_names name_list) st1 of
                      (Some e, st2) \<Rightarrow> (Inl e, st2)
                    | (None, st2) \<Rightarrow> (Inr info, st2))
              else (Inr info, st1)))"

text \<open>Lines 258-265 and 297-307: a name that already is in hashlib format.\<close>

definition lookup_canonical ::
  "'s platform \<Rightarrow> 's resolver_state \<Rightarrow> name_row \<Rightarrow> bool \<Rightarrow>
     (error + 's HashInfo) \<times> 's resolver_state" where
  "lookup_canonical p st name_list return_unknown =
     (case get_hash_const p st (fst name_list) of
        (None, st1) \<Rightarrow>
          if return_unknown
          then (case HashInfo_init (next_info st1) None name_list of
                  Inl e \<Rightarrow> (Inl e, st1)
                | Inr info \<Rightarrow> (Inr info, st1\<lparr>next_info := Suc (next_info st1)\<rparr>))
          else (Inl (UnknownHashError (fst name_list)), st1)
      | (Some const, st1) \<Rightarrow> new_instance st1 const name_list True)"

text \<open>Lines 250-256: what is done with the record of the normalized name.\<close>

definition reuse_info ::
  "string \<Rightarrow> bool \<Rightarrow> (error + 's HashInfo) \<times> 's resolver_state \<Rightarrow>
     (error + 's HashInfo) \<times> 's resolver_state" where
  "reuse_info digest return_unknown r =
     (case r of
        (Inl e, st1) \<Rightarrow> (Inl e, st1)
      | (Inr info, st1) \<Rightarrow>
          if hi_const info = None
          then (if return_unknown then (Inr info, st1) else (Inl AssertionError, st1))
          else (Inr info, st1\<lparr>cache := (cache st1)(KName digest \<mapsto> info)\<rparr>))"

text \<open>Lines 271-292 and 297-307: a constructor.\<close>

definition lookup_callable ::
  "'s platform \<Rightarrow> 's resolver_state \<Rightarrow> 's hash_const \<Rightarrow>
     (error + 's HashInfo) \<times> 's resolver_state" where
  "lookup_callable p st const =
     (let name_list = get_hash_aliases (c_name const)
      in case get_hash_const p st (fst name_list) of
           (other_const, st1) \<Rightarrow>
             (let cache_by_name =
                    (case other_const of None \<Rightarrow> True | Some oc \<Rightarrow> c_id oc = c_id const)
              in new_instance st1 const name_list cache_by_name))"

text \<open>
  \<open>lookup_hash\<close>, lines 231-307.  The function calls itself on the normalized name; Python
  bounds the depth of the calls and raises \<open>RecursionError\<close> beyond it, and the first
  argument after the platform is the depth still available.
\<close>

fun lookup_hash ::
  "'s platform \<Rightarrow> nat \<Rightarrow> 's resolver_state \<Rightarrow> 's ident \<Rightarrow> bool \<Rightarrow>
     (error + 's HashInfo) \<times> 's resolver_state" where
  "lookup_hash p 0 st digest return_unknown = (Inl RecursionError, st)"
| "lookup_hash p (Suc depth) st digest return_unknown =
     (case cache_get st digest of
        Some info \<Rightarrow> (Inr info, st)
      | None \<Rightarrow>
          (case digest of
             Name s \<Rightarrow>
               (let name_list = get_hash_aliases s; name = fst name_list
                in if name = [] then (Inl AssertionError, st)
                   else if name \<noteq> s
                   then reuse_info s return_unknown
                          (lookup_hash p depth st (Name name) return_unknown)
                   else lookup_canonical p st name_list return_unknown)
           | Info i \<Rightarrow> (Inr i, st)
           | Const c \<Rightarrow> lookup_callable p st c
           | Other \<Rightarrow> (Inl ExpectedTypeError, st)))"

section \<open>The HMAC compiler\<close>

text \<open>\<open>_TRANS_5C\<close> and \<open>_TRANS_36\<close>, lines 459-460, and \<open>bytes.translate\<close>.\<close>

definition TRANS_5C :: bytes where
  "TRANS_5C = map (\<lambda>x. (word_of_nat x :: octet) XOR 0x5C) [0..<256]"

definition TRANS_36 :: bytes where
  "TRANS_36 = map (\<lambda>x. (word_of_nat x :: octet) XOR 0x36) [0..<256]"

definition translate :: "bytes \<Rightarrow> bytes \<Rightarrow> bytes" where
  "translate key table = map (\<lambda>b. table ! unat b) key"

text \<open>Lines 501-506: the key schedule.\<close>

definition prepare_key :: "'s hash_const \<Rightarrow> nat \<Rightarrow> nat \<Rightarrow> bytes \<Rightarrow> bytes" where
  "prepare_key const digest_size block_size key =
     (let klen = length key;
          (key, klen) = (if klen > block_size
                         then (c_digest const (c_new const key), digest_size)
                         else (key, klen))
      in if klen < block_size then key @ replicate (block_size - klen) 0 else key)"

text \<open>
  The value \<open>compile_hmac\<close> returns.  The single-shot function maps a message to its digest.
  The multipart function \<open>hmac()\<close> returns the pair \<open>(inner.update, finalize)\<close>, two closures
  over the hash object \<open>inner\<close>: here \<open>mp_inner\<close> is the object \<open>hmac()\<close> creates,
  \<open>mp_update\<close> is \<open>inner.update\<close> as a function of the object's state, and \<open>mp_finalize\<close>
  reads the state.
\<close>

datatype 's hmac_fun =
    Single (single_shot: "bytes \<Rightarrow> bytes")
  | Multipart (mp_inner: 's) (mp_update: "'s \<Rightarrow> bytes \<Rightarrow> 's") (mp_finalize: "'s \<Rightarrow> bytes")

record 's compiled_hmac =
  hmac :: "'s hmac_fun"
  digest_info :: "'s HashInfo"

text \<open>Lines 508-537, for a record that has its constructor and sizes.\<close>

definition build_hmac :: "'s hash_const \<Rightarrow> bytes \<Rightarrow> bool \<Rightarrow> 's hmac_fun" where
  "build_hmac const key multipart =
     (let inner_copy = c_new const (translate key TRANS_36);
          outer_copy = c_new const (translate key TRANS_5C)
      in if multipart
         then Multipart inner_copy (c_update const)
                (\<lambda>inner. c_digest const (c_update const outer_copy (c_digest const inner)))
         else Single (\<lambda>msg.
                (let inner = c_update const inner_copy msg;
                     outer = c_update const outer_copy (c_digest const inner)
                 in c_digest const outer)))"

text \<open>
  \<open>compile_hmac\<close>, lines 493-537.  A record made by \<open>HashInfo.__init__\<close> has its
  constructor and both sizes, or none of the three; with \<open>block_size\<close> \<open>None\<close> the assertion
  of line 496 raises \<open>TypeError\<close> on Python 3 and fails on Python 2.
\<close>

definition compile_hmac ::
  "'s platform \<Rightarrow> nat \<Rightarrow> 's resolver_state \<Rightarrow> 's ident \<Rightarrow> bytes \<Rightarrow> bool \<Rightarrow>
     (error + 's compiled_hmac) \<times> 's resolver_state" where
  "compile_hmac p depth st digest key multipart =
     (case lookup_hash p depth st digest False of
        (Inl e, st1) \<Rightarrow> (Inl e, st1)
      | (Inr info, st1) \<Rightarrow>
          (case (hi_const info, hi_digest_size info, hi_block_size info) of
             (Some const, Some digest_size, Some block_size) \<Rightarrow>
               if \<not> block_size \<ge> 16 then (Inl AssertionError, st1)
               else (Inr \<lparr>hmac = build_hmac const
                                    (prepare_key const digest_size block_size key) multipart,
                          digest_info = info\<rparr>, st1)
           | _ \<Rightarrow> (Inl (if PY3 p then TypeError else AssertionError), st1)))"

section \<open>PBKDF1\<close>

fun pbkdf1_loop :: "'s hash_const \<Rightarrow> nat \<Rightarrow> bytes \<Rightarrow> bytes" where
  "pbkdf1_loop const 0 block = block"
| "pbkdf1_loop const (Suc n) block = pbkdf1_loop const n (c_digest const (c_new const block))"

text \<open>\<open>pbkdf1\<close>, lines 571-599.  With a record that has no constructor the comparison of
  line 591 raises \<open>TypeError\<close> on Python 3 and holds on Python 2, and the call of line 598
  raises \<open>TypeError\<close>.\<close>

definition pbkdf1 ::
  "'s platform \<Rightarrow> nat \<Rightarrow> 's resolver_state \<Rightarrow> 's ident \<Rightarrow> bytes \<Rightarrow> bytes \<Rightarrow> int \<Rightarrow> int option \<Rightarrow>
     (error + bytes) \<times> 's resolver_state" where
  "pbkdf1 p depth st digest secret salt rounds keylen =
     (case lookup_hash p depth st digest False of
        (Inl e, st1) \<Rightarrow> (Inl e, st1)
      | (Inr info, st1) \<Rightarrow>
          (if rounds < 1 then Inl (ValueError ''rounds must be at least 1'')
           else
             (case (hi_const info, hi_digest_size info) of
                (Some const, Some digest_size) \<Rightarrow>
                  (case keylen of
                     None \<Rightarrow>
                       Inr (take digest_size (pbkdf1_loop const (nat rounds) (secret @ salt)))
                   | Some k \<Rightarrow>
                       if k < 0 then Inl (ValueError ''keylen must be at least 0'')
                       else if k > int digest_size
                       then Inl (ValueError ''keylength too large for digest'')
                       else Inr (take (nat k) (pbkdf1_loop const (nat rounds) (secret @ salt))))
              | _ \<Rightarrow>
                  (case keylen of
                     None \<Rightarrow> Inl TypeError
                   | Some k \<Rightarrow>
                       if k < 0 then Inl (ValueError ''keylen must be at least 0'')
                       else if PY3 p then Inl TypeError
                       else Inl (ValueError ''keylength too large for digest''))),
           st1))"

section \<open>PBKDF2\<close>

subsection \<open>Integers and octets\<close>

definition MAX_UINT32 :: int where
  "MAX_UINT32 = 2 ^ 32 - 1"

text \<open>\<open>int.from_bytes(b, "big")\<close> and \<open>n.to_bytes(length, "big")\<close>.\<close>

definition from_bytes_big :: "bytes \<Rightarrow> int" where
  "from_bytes_big b = foldl (\<lambda>acc x. acc * 256 + uint x) 0 b"

fun be_bytes :: "nat \<Rightarrow> int \<Rightarrow> bytes" where
  "be_bytes 0 k = []"
| "be_bytes (Suc n) k = be_bytes n (k div 256) @ [word_of_int k]"

definition to_bytes_big :: "nat \<Rightarrow> int \<Rightarrow> error + bytes" where
  "to_bytes_big n k =
     (if k < 0 then Inl (OverflowError ''can't convert negative int to unsigned'')
      else if 256 ^ n \<le> k then Inl (OverflowError ''int too big to convert'')
      else Inr (be_bytes n k))"

text \<open>\<open>_pack_uint32 = Struct(">L").pack\<close>, line 605.\<close>

definition pack_uint32 :: "int \<Rightarrow> error + bytes" where
  "pack_uint32 i = (if 0 \<le> i \<and> i \<le> MAX_UINT32 then Inr (be_bytes 4 i) else Inl StructError)"

subsection \<open>The choice of the builtin backend, lines 711-871\<close>

datatype backend = From_bytes | Unpack | Hexlify

definition backend_name :: "backend \<Rightarrow> string" where
  "backend_name b = (case b of From_bytes \<Rightarrow> ''from-bytes'' | Unpack \<Rightarrow> ''unpack''
                     | Hexlify \<Rightarrow> ''hexlify'')"

definition force_backend :: "'s platform \<Rightarrow> string" where
  "force_backend p =
     (case env_PASSLIB_PBKDF2_BACKEND p of None \<Rightarrow> ''any''
      | Some v \<Rightarrow> if v = [] then ''any'' else v)"

text \<open>\<open>None\<close>: the assertion of line 848 fails and the module does not load.\<close>

definition builtin_backend :: "'s platform \<Rightarrow> backend option" where
  "builtin_backend p =
     (if PY3 p \<and> force_backend p \<in> set [''any'', ''from-bytes''] then Some From_bytes
      else if force_backend p \<in> set [''any'', ''unpack'', ''from-bytes''] then Some Unpack
      else if force_backend p \<in> set [''any'', ''hexlify''] then Some Hexlify
      else None)"

text \<open>Lines 870-871: a forced builtin backend disables the accelerated ones.\<close>

definition fast_pbkdf2_hmac :: "'s platform \<Rightarrow> pbkdf2_backend option" where
  "fast_pbkdf2_hmac p =
     (if Some (force_backend p) = map_option backend_name (builtin_backend p) then None
      else imported_fast_pbkdf2_hmac p)"

definition stdlib_pbkdf2_hmac :: "'s platform \<Rightarrow> pbkdf2_backend option" where
  "stdlib_pbkdf2_hmac p =
     (if Some (force_backend p) = map_option backend_name (builtin_backend p) then None
      else imported_stdlib_pbkdf2_hmac p)"

text \<open>The probes \<open>supported_by_fastpbkdf2\<close> and \<open>supported_by_hashlib_pbkdf2\<close>, lines
  426-448: \<open>None\<close> without the backend, \<open>False\<close> on \<open>ValueError\<close>; another exception of the
  backend propagates.  The memoized value is a function of the record and the platform.\<close>

definition probe :: "pbkdf2_backend option \<Rightarrow> string \<Rightarrow> error + bool option" where
  "probe backend name =
     (case backend of
        None \<Rightarrow> Inr None
      | Some f \<Rightarrow>
          (case f name [0x70] [0x73] 1 None of
             Inr _ \<Rightarrow> Inr (Some True)
           | Inl (ValueError _) \<Rightarrow> Inr (Some False)
           | Inl e \<Rightarrow> Inl e))"

definition supported_by_fastpbkdf2 :: "'s platform \<Rightarrow> 's HashInfo \<Rightarrow> error + bool option" where
  "supported_by_fastpbkdf2 p info = probe (fast_pbkdf2_hmac p) (hi_name info)"

definition supported_by_hashlib_pbkdf2 :: "'s platform \<Rightarrow> 's HashInfo \<Rightarrow> error + bool option" where
  "supported_by_hashlib_pbkdf2 p info = probe (stdlib_pbkdf2_hmac p) (hi_name info)"

subsection \<open>The inner loops\<close>

text \<open>\<open>_pbkdf2_looper\<close> of the \<open>from-bytes\<close> backend, lines 719-730.  \<open>keyed_hmac\<close> is the
  single-shot function of \<open>compile_hmac\<close>.\<close>

fun from_bytes_loop :: "(bytes \<Rightarrow> bytes) \<Rightarrow> nat \<Rightarrow> bytes \<Rightarrow> int \<Rightarrow> int" where
  "from_bytes_loop keyed_hmac 0 digest accum = accum"
| "from_bytes_loop keyed_hmac (Suc n) digest accum =
     (let digest = keyed_hmac digest
      in from_bytes_loop keyed_hmac n digest (accum XOR from_bytes_big digest))"

definition pbkdf2_looper_from_bytes ::
  "nat \<Rightarrow> (bytes \<Rightarrow> bytes) \<Rightarrow> bytes \<Rightarrow> int \<Rightarrow> error + bytes" where
  "pbkdf2_looper_from_bytes digest_size keyed_hmac digest rounds =
     to_bytes_big digest_size
       (from_bytes_loop keyed_hmac (nat (rounds - 1)) digest (from_bytes_big digest))"

text \<open>
  The \<open>unpack\<close> backend, lines 743-843.  The generated helper keeps one integer per lane of
  the \<open>struct\<close> format (\<open>=%dQ\<close>, \<open>=%dQI\<close> or \<open>=%dI\<close>: lanes of 8 or 4 octets in the
  machine's byte order).  \<open>_looper_cache\<close> memoizes the helper per digest size and is left
  out: the helper is a function of the digest size.
\<close>

definition lane_widths :: "'s platform \<Rightarrow> nat \<Rightarrow> error + nat list" where
  "lane_widths p digest_size =
     (if have_64_bit p \<and> digest_size mod 8 = 0 then Inr (replicate (digest_size div 8) 8)
      else if digest_size mod 4 = 0
      then (if have_64_bit p then Inr (replicate (digest_size div 8) 8 @ [4])
            else Inr (replicate (digest_size div 4) 4))
      else Inl NotImplementedError)"

fun split_lanes :: "nat list \<Rightarrow> bytes \<Rightarrow> bytes list" where
  "split_lanes [] b = []"
| "split_lanes (w # ws) b = take w b # split_lanes ws (drop w b)"

definition lane_of_bytes :: "'s platform \<Rightarrow> bytes \<Rightarrow> int" where
  "lane_of_bytes p b = from_bytes_big (if little_endian p then rev b else b)"

definition bytes_of_lane :: "'s platform \<Rightarrow> nat \<Rightarrow> int \<Rightarrow> error + bytes" where
  "bytes_of_lane p w k =
     (if k < 0 \<or> 256 ^ w \<le> k then Inl StructError
      else Inr (if little_endian p then rev (be_bytes w k) else be_bytes w k))"

definition struct_unpack :: "'s platform \<Rightarrow> nat list \<Rightarrow> bytes \<Rightarrow> error + int list" where
  "struct_unpack p widths b =
     (if length b \<noteq> sum_list widths then Inl StructError
      else Inr (map (lane_of_bytes p) (split_lanes widths b)))"

fun struct_pack :: "'s platform \<Rightarrow> nat list \<Rightarrow> int list \<Rightarrow> error + bytes" where
  "struct_pack p (w # ws) (k # ks) =
     (case bytes_of_lane p w k of
        Inl e \<Rightarrow> Inl e
      | Inr b \<Rightarrow> (case struct_pack p ws ks of Inl e \<Rightarrow> Inl e | Inr bs \<Rightarrow> Inr (b @ bs)))"
| "struct_pack p [] [] = Inr []"
| "struct_pack p _ _ = Inl StructError"

fun unpack_loop ::
  "'s platform \<Rightarrow> nat list \<Rightarrow> (bytes \<Rightarrow> bytes) \<Rightarrow> nat \<Rightarrow> bytes \<Rightarrow> int list \<Rightarrow> error + int list" where
  "unpack_loop p widths keyed_hmac 0 digest acc = Inr acc"
| "unpack_loop p widths keyed_hmac (Suc n) digest acc =
     (let digest = keyed_hmac digest
      in case struct_unpack p widths digest of
           Inl e \<Rightarrow> Inl e
         | Inr dig \<Rightarrow> unpack_loop p widths keyed_hmac n digest (map2 (XOR) acc dig))"

definition unpack_helper ::
  "'s platform \<Rightarrow> nat list \<Rightarrow> (bytes \<Rightarrow> bytes) \<Rightarrow> bytes \<Rightarrow> int \<Rightarrow> error + bytes" where
  "unpack_helper p widths keyed_hmac digest rounds =
     (case struct_unpack p widths digest of
        Inl e \<Rightarrow> Inl e
      | Inr acc \<Rightarrow>
          (case unpack_loop p widths keyed_hmac (nat (rounds - 1)) digest acc of
             Inl e \<Rightarrow> Inl e
           | Inr acc \<Rightarrow> struct_pack p widths acc))"

text \<open>\<open>_pbkdf2_looper\<close> of the \<open>hexlify\<close> backend, lines 859-865.  \<open>int(hexlify(digest), 16)\<close>
  is the big-endian value of a digest that is not empty, and a \<open>ValueError\<close> on the empty one.\<close>

fun hexlify_loop :: "(bytes \<Rightarrow> bytes) \<Rightarrow> nat \<Rightarrow> bytes \<Rightarrow> int \<Rightarrow> error + bytes \<times> int" where
  "hexlify_loop keyed_hmac 0 digest accum = Inr (digest, accum)"
| "hexlify_loop keyed_hmac (Suc n) digest accum =
     (let digest = keyed_hmac digest
      in if digest = [] then Inl (ValueError ''invalid literal for int()'')
         else hexlify_loop keyed_hmac n digest (accum XOR from_bytes_big digest))"

definition pbkdf2_looper_hexlify ::
  "'s platform \<Rightarrow> (bytes \<Rightarrow> bytes) \<Rightarrow> bytes \<Rightarrow> int \<Rightarrow> error + bytes" where
  "pbkdf2_looper_hexlify p keyed_hmac digest rounds =
     (if digest = [] then Inl (ValueError ''invalid literal for int()'')
      else (case hexlify_loop keyed_hmac (nat (rounds - 1)) digest (from_bytes_big digest) of
              Inl e \<Rightarrow> Inl e
            | Inr (digest, accum) \<Rightarrow> int_to_bytes p accum (length digest)))"

definition get_pbkdf2_looper ::
  "'s platform \<Rightarrow> nat \<Rightarrow> error + ((bytes \<Rightarrow> bytes) \<Rightarrow> bytes \<Rightarrow> int \<Rightarrow> error + bytes)" where
  "get_pbkdf2_looper p digest_size =
     (case builtin_backend p of
        None \<Rightarrow> Inl AssertionError
      | Some From_bytes \<Rightarrow> Inr (pbkdf2_looper_from_bytes digest_size)
      | Some Unpack \<Rightarrow>
          (case lane_widths p digest_size of
             Inl e \<Rightarrow> Inl e
           | Inr widths \<Rightarrow> Inr (unpack_helper p widths))
      | Some Hexlify \<Rightarrow> Inr (pbkdf2_looper_hexlify p))"

subsection \<open>\<open>pbkdf2_hmac\<close>\<close>

text \<open>Lines 701-704: the blocks \<open>i = 1 .. block_count\<close>, joined.\<close>

fun join_blocks :: "(int \<Rightarrow> error + bytes) \<Rightarrow> int list \<Rightarrow> error + bytes" where
  "join_blocks f [] = Inr []"
| "join_blocks f (i # is) =
     (case f i of
        Inl e \<Rightarrow> Inl e
      | Inr b \<Rightarrow> (case join_blocks f is of Inl e \<Rightarrow> Inl e | Inr bs \<Rightarrow> Inr (b @ bs)))"

definition builtin_block ::
  "((bytes \<Rightarrow> bytes) \<Rightarrow> bytes \<Rightarrow> int \<Rightarrow> error + bytes) \<Rightarrow> (bytes \<Rightarrow> bytes) \<Rightarrow> bytes \<Rightarrow> int \<Rightarrow>
     int \<Rightarrow> error + bytes" where
  "builtin_block calc_block keyed_hmac salt rounds i =
     (case pack_uint32 i of
        Inl e \<Rightarrow> Inl e
      | Inr ib \<Rightarrow> calc_block keyed_hmac (keyed_hmac (salt @ ib)) rounds)"

text \<open>Lines 694-704: the builtin path.\<close>

definition pbkdf2_builtin ::
  "'s platform \<Rightarrow> nat \<Rightarrow> 's resolver_state \<Rightarrow> 's ident \<Rightarrow> nat \<Rightarrow> bytes \<Rightarrow> bytes \<Rightarrow> int \<Rightarrow> int \<Rightarrow>
     int \<Rightarrow> (error + bytes) \<times> 's resolver_state" where
  "pbkdf2_builtin p depth st digest digest_size secret salt rounds keylen block_count =
     (case compile_hmac p depth st digest secret False of
        (Inl e, st1) \<Rightarrow> (Inl e, st1)
      | (Inr compiled, st1) \<Rightarrow>
          (case hmac compiled of
             Multipart _ _ _ \<Rightarrow> (Inl TypeError, st1)
           | Single keyed_hmac \<Rightarrow>
               (case get_pbkdf2_looper p digest_size of
                  Inl e \<Rightarrow> (Inl e, st1)
                | Inr calc_block \<Rightarrow>
                    (case join_blocks (builtin_block calc_block keyed_hmac salt rounds)
                            (map int [1 ..< Suc (nat block_count)]) of
                       Inl e \<Rightarrow> (Inl e, st1)
                     | Inr joined \<Rightarrow> (Inr (take (nat keylen) joined), st1)))))"

text \<open>Lines 681-688: an accelerated backend is used when its probe is \<open>True\<close>.\<close>

definition accelerated :: "pbkdf2_backend option \<Rightarrow> string \<Rightarrow> error + pbkdf2_backend option" where
  "accelerated backend name =
     (case probe backend name of
        Inl e \<Rightarrow> Inl e
      | Inr supported \<Rightarrow> if supported = Some True then Inr backend else Inr None)"

text \<open>\<open>pbkdf2_hmac\<close>, lines 642-704.  With \<open>digest_size\<close> \<open>None\<close> line 671 raises
  \<open>TypeError\<close>, with \<open>digest_size\<close> 0 it raises \<open>ZeroDivisionError\<close>.\<close>

definition pbkdf2_hmac ::
  "'s platform \<Rightarrow> nat \<Rightarrow> 's resolver_state \<Rightarrow> 's ident \<Rightarrow> bytes \<Rightarrow> bytes \<Rightarrow> int \<Rightarrow> int option \<Rightarrow>
     (error + bytes) \<times> 's resolver_state" where
  "pbkdf2_hmac p depth st digest secret salt rounds keylen =
     (case lookup_hash p depth st digest False of
        (Inl e, st1) \<Rightarrow> (Inl e, st1)
      | (Inr info, st1) \<Rightarrow>
          if rounds < 1 then (Inl (ValueError ''rounds must be at least 1''), st1)
          else if (case keylen of None \<Rightarrow> False | Some k \<Rightarrow> k < 1)
          then (Inl (ValueError ''keylen must be at least 1''), st1)
          else
            (case hi_digest_size info of
               None \<Rightarrow> (Inl TypeError, st1)
             | Some digest_size \<Rightarrow>
                 (let keylen = (case keylen of None \<Rightarrow> int digest_size | Some k \<Rightarrow> k)
                  in if digest_size = 0 then (Inl ZeroDivisionError, st1)
                     else
                       (let block_count = (keylen + int digest_size - 1) div int digest_size
                        in if block_count > MAX_UINT32
                           then (Inl (OverflowError ''keylen too long for digest''), st1)
                           else
                             (case accelerated (fast_pbkdf2_hmac p) (hi_name info) of
                                Inl e \<Rightarrow> (Inl e, st1)
                              | Inr (Some fast) \<Rightarrow>
                                  (fast (hi_name info) secret salt rounds (Some keylen), st1)
                              | Inr None \<Rightarrow>
                                  (case accelerated (stdlib_pbkdf2_hmac p) (hi_name info) of
                                     Inl e \<Rightarrow> (Inl e, st1)
                                   | Inr (Some stdlib) \<Rightarrow>
                                       (stdlib (hi_name info) secret salt rounds (Some keylen), st1)
                                   | Inr None \<Rightarrow>
                                       pbkdf2_builtin p depth st1 digest digest_size secret salt
                                         rounds keylen block_count))))))"

section \<open>What the specification says\<close>

text \<open>
  The definitions of this section follow the words of the specification; the theorems
  compare them with the functions above.
\<close>

subsection \<open>The invariants of a descriptor\<close>

text \<open>``\<open>digest_size\<close> equals the octet length of an actual computed digest from that
  constructor'', for the constructor and the sizes of a record.\<close>

definition fixed_size :: "'s hash_const \<Rightarrow> nat \<Rightarrow> bool" where
  "fixed_size c n \<longleftrightarrow> (\<forall>s. length (c_digest c s) = n)"

text \<open>The contract of a hash object: feeding it chunks is feeding it their concatenation,
  and \<open>const(msg)\<close> is \<open>const()\<close> fed with \<open>msg\<close>.\<close>

definition streaming :: "'s hash_const \<Rightarrow> bool" where
  "streaming c \<longleftrightarrow>
     (\<forall>s a b. c_update c (c_update c s a) b = c_update c s (a @ b)) \<and>
     (\<forall>s. c_update c s [] = s) \<and>
     (\<forall>m. c_new c m = c_update c (c_new c []) m)"

text \<open>The digest of a message.\<close>

definition H :: "'s hash_const \<Rightarrow> bytes \<Rightarrow> bytes" where
  "H c m = c_digest c (c_new c m)"

subsection \<open>HMAC\<close>

definition xor_pad :: "octet \<Rightarrow> bytes \<Rightarrow> bytes" where
  "xor_pad m key = map (\<lambda>b. b XOR m) key"

text \<open>``If \<open>len(key) > block_size\<close>, replace key with its digest; if shorter than
  \<open>block_size\<close>, right-pad with zero octets to exactly \<open>block_size\<close>.''\<close>

definition key_schedule :: "'s hash_const \<Rightarrow> nat \<Rightarrow> bytes \<Rightarrow> bytes" where
  "key_schedule c block_size key =
     (let k = (if length key > block_size then H c key else key)
      in if length k < block_size then k @ replicate (block_size - length k) 0 else k)"

text \<open>``Duplicate the inner seed, feed it \<open>message\<close>, finalize to get the inner digest;
  duplicate the outer seed, feed it the inner digest, finalize.''\<close>

definition mac_spec :: "'s hash_const \<Rightarrow> bytes \<Rightarrow> bytes \<Rightarrow> bytes" where
  "mac_spec c k message =
     c_digest c (c_update c (c_new c (xor_pad 0x5C k))
                   (c_digest c (c_update c (c_new c (xor_pad 0x36 k)) message)))"

text \<open>The standard HMAC of a message under a key of block length.\<close>

definition standard_hmac :: "'s hash_const \<Rightarrow> bytes \<Rightarrow> bytes \<Rightarrow> bytes" where
  "standard_hmac c k message = H c (xor_pad 0x5C k @ H c (xor_pad 0x36 k @ message))"

text \<open>A use of the multipart pair: a sequence of calls of \<open>update\<close> and \<open>finalize\<close> on the
  object \<open>hmac()\<close> made, with the digests the calls of \<open>finalize\<close> return, in order.\<close>

datatype call = Update bytes | Finalize

fun run_calls :: "'s hmac_fun \<Rightarrow> call list \<Rightarrow> 's \<Rightarrow> bytes list" where
  "run_calls f [] inner = []"
| "run_calls f (Update chunk # cs) inner = run_calls f cs (mp_update f inner chunk)"
| "run_calls f (Finalize # cs) inner = mp_finalize f inner # run_calls f cs inner"

text \<open>What the calls of \<open>finalize\<close> have to return: the single-shot MAC of the chunks fed
  so far.\<close>

fun expected_digests :: "(bytes \<Rightarrow> bytes) \<Rightarrow> call list \<Rightarrow> bytes \<Rightarrow> bytes list" where
  "expected_digests mac [] fed = []"
| "expected_digests mac (Update chunk # cs) fed = expected_digests mac cs (fed @ chunk)"
| "expected_digests mac (Finalize # cs) fed = mac fed # expected_digests mac cs fed"

subsection \<open>PBKDF2\<close>

definition be32 :: "nat \<Rightarrow> bytes" where
  "be32 i = [of_nat (i div 2 ^ 24), of_nat (i div 2 ^ 16), of_nat (i div 2 ^ 8), of_nat i]"

definition xor_bytes :: "bytes \<Rightarrow> bytes \<Rightarrow> bytes" where
  "xor_bytes a b = map2 (XOR) a b"

text \<open>\<open>U_1 = mac(salt \<parallel> be32(i))\<close>, \<open>U_{j+1} = mac(U_j)\<close>; \<open>pbkdf2_U mac salt i 0\<close> is the
  argument of the first call.\<close>

fun pbkdf2_U :: "(bytes \<Rightarrow> bytes) \<Rightarrow> bytes \<Rightarrow> nat \<Rightarrow> nat \<Rightarrow> bytes" where
  "pbkdf2_U mac salt i 0 = salt @ be32 i"
| "pbkdf2_U mac salt i (Suc j) = mac (pbkdf2_U mac salt i j)"

text \<open>\<open>T_i = U_1 XOR U_2 XOR \<dots> XOR U_rounds\<close>\<close>

definition pbkdf2_T :: "(bytes \<Rightarrow> bytes) \<Rightarrow> bytes \<Rightarrow> nat \<Rightarrow> nat \<Rightarrow> bytes" where
  "pbkdf2_T mac salt rounds i =
     foldl xor_bytes (pbkdf2_U mac salt i 1) (map (pbkdf2_U mac salt i) [2 ..< Suc rounds])"

text \<open>\<open>block_count = ceil(keylen / digest_size)\<close>\<close>

definition block_count_spec :: "nat \<Rightarrow> nat \<Rightarrow> nat" where
  "block_count_spec keylen digest_size = (keylen + digest_size - 1) div digest_size"

definition pbkdf2_spec :: "(bytes \<Rightarrow> bytes) \<Rightarrow> bytes \<Rightarrow> nat \<Rightarrow> nat \<Rightarrow> nat \<Rightarrow> bytes" where
  "pbkdf2_spec mac salt rounds keylen digest_size =
     take keylen
       (concat (map (pbkdf2_T mac salt rounds) [1 ..< Suc (block_count_spec keylen digest_size)]))"

subsection \<open>Names\<close>

text \<open>A spelling of a name of the table: letters in any case, and any of \<open>_\<close>, space, \<open>/\<close>
  or \<open>-\<close> where the name has a hyphen.\<close>

definition spelling_char :: "char \<Rightarrow> char \<Rightarrow> bool" where
  "spelling_char a b \<longleftrightarrow> lower_char a = b \<or> (a \<in> set ''_ /-'' \<and> b = CHR ''-'')"

definition spelling_of :: "string \<Rightarrow> string \<Rightarrow> bool" where
  "spelling_of s name \<longleftrightarrow> list_all2 spelling_char s name"

subsection \<open>The resolver's cache\<close>

text \<open>A record without constructor is never in the cache.\<close>

definition cache_ok :: "'s resolver_state \<Rightarrow> bool" where
  "cache_ok st \<longleftrightarrow> (\<forall>k info. cache st k = Some info \<longrightarrow> hi_const info \<noteq> None)"

section \<open>Example constructors\<close>

text \<open>Small constructors and a platform on which the theorems are instantiated.
  \<open>toy_const\<close> keeps the octets it was fed and digests them to four octets.\<close>

definition toy_digest :: "nat \<Rightarrow> bytes \<Rightarrow> bytes" where
  "toy_digest n s = replicate (n - 3) (0xA5 :: octet) @
                    take n [of_nat (length s), sum_list s, foldr (XOR) s 0]"

definition toy :: "nat \<Rightarrow> nat \<Rightarrow> nat \<Rightarrow> string \<Rightarrow> bytes hash_const" where
  "toy i digest_size block_size name =
     \<lparr>c_id = Static i, c_new = (\<lambda>m. m), c_update = (\<lambda>s m. s @ m),
      c_digest = toy_digest digest_size, c_digest_size = digest_size,
      c_block_size = block_size, c_name = name\<rparr>"

definition toy_const :: "bytes hash_const" where
  "toy_const = toy 0 4 16 ''toy''"

text \<open>A digest of 5 octets, and a digest longer than the block.\<close>

definition odd_const :: "bytes hash_const" where
  "odd_const = toy 2 5 16 ''odd''"

definition wide_const :: "bytes hash_const" where
  "wide_const = toy 3 17 16 ''wide''"

definition info_of :: "nat \<Rightarrow> bytes hash_const \<Rightarrow> bytes HashInfo" where
  "info_of i c =
     \<lparr>hi_id = i, hi_name = c_name c, hi_iana_name = c_name c, hi_aliases = [],
      hi_const = Some c, hi_digest_size = Some (c_digest_size c),
      hi_block_size = Some (c_block_size c)\<rparr>"

definition toy_platform :: "bytes platform" where
  "toy_platform =
     \<lparr>hashlib_attr = (\<lambda>n. if n = ''toy'' then Some toy_const else None),
      hashlib_new = (\<lambda>n. None),
      builtin_md4 = toy 1 4 16 ''md4'',
      PY3 = True,
      env_PASSLIB_PBKDF2_BACKEND = None,
      have_64_bit = True,
      little_endian = True,
      imported_fast_pbkdf2_hmac = None,
      imported_stdlib_pbkdf2_hmac = None,
      int_to_bytes = (\<lambda>k n. to_bytes_big n k)\<rparr>"

text \<open>The same platform under Python 2, where the builtin backend is \<open>unpack\<close>.\<close>

definition py2_platform :: "bytes platform" where
  "py2_platform = toy_platform\<lparr>PY3 := False\<rparr>"

section \<open>Properties of the resolver\<close>

lemma cache_names_frame:
  "cache_names info ns st = (r, st') \<Longrightarrow>
     cache st' (KConst k) = cache st (KConst k) \<and> next_info st' = next_info st \<and>
     next_wrapper st' = next_wrapper st"
  by (induction ns arbitrary: st) (auto split: if_splits option.splits)

lemma cache_names_keeps:
  "cache_names info ns st = (r, st') \<Longrightarrow> cache st k = Some info \<Longrightarrow> cache st' k = Some info"
  by (induction ns arbitrary: st) (auto split: if_splits option.splits)

lemma cache_names_written:
  "cache_names info ns st = (None, st') \<Longrightarrow> n \<in> set ns \<Longrightarrow> n \<noteq> [] \<Longrightarrow>
     cache st' (KName n) = Some info"
proof (induction ns arbitrary: st)
  case Nil
  then show ?case by simp
next
  case (Cons a ns)
  show ?case
  proof (cases "n = a")
    case True
    with Cons.prems obtain st1 where
      "cache_names info ns st1 = (None, st')" "cache st1 (KName n) = Some info"
      by (auto split: if_splits option.splits)
    then show ?thesis by (rule cache_names_keeps)
  next
    case False
    with Cons.prems obtain st1 where "cache_names info ns st1 = (None, st')"
      by (auto split: if_splits option.splits)
    with Cons.IH False Cons.prems show ?thesis by auto
  qed
qed

lemma cache_names_entries:
  "cache_names info ns st = (r, st') \<Longrightarrow> cache st' k = Some x \<Longrightarrow>
     x = info \<or> cache st k = Some x"
proof (induction ns arbitrary: st)
  case Nil
  then show ?case by simp
next
  case (Cons a ns)
  show ?case
  proof (cases "a \<noteq> [] \<and> (case cache st (KName a) of None \<Rightarrow> True | Some old \<Rightarrow> as_tuple old = as_tuple info)")
    case True
    with Cons.prems have "cache_names info ns (st\<lparr>cache := (cache st)(KName a \<mapsto> info)\<rparr>) = (r, st')"
      by (auto split: option.splits)
    from Cons.IH[OF this Cons.prems(2)] show ?thesis
      by (auto split: if_splits)
  next
    case False
    with Cons.prems Cons.IH show ?thesis
      by (auto split: option.splits if_splits)
  qed
qed

lemma get_hash_const_frame:
  "get_hash_const p st n = (r, st') \<Longrightarrow>
     cache st' = cache st \<and> next_info st' = next_info st \<and> (r = None \<longrightarrow> st' = st)"
  by (auto simp: get_hash_const_def split: if_splits option.splits)

lemma get_hash_const_None_state:
  "fst (get_hash_const p st n) = None \<longleftrightarrow> fst (get_hash_const p st2 n) = None"
  by (auto simp: get_hash_const_def split: if_splits option.splits)

lemma HashInfo_init_Some:
  "HashInfo_init i (Some c) names = Inr info \<Longrightarrow>
     hi_const info = Some c \<and> hi_id info = i \<and> hi_name info = fst names \<and>
     hi_iana_name info = fst (snd names) \<and> hi_aliases info = snd (snd names) \<and>
     hi_digest_size info = Some (c_digest_size c) \<and> hi_block_size info = Some (c_block_size c)"
  by (auto simp: HashInfo_init_def Let_def split: if_splits)

lemma new_instance_Inr:
  assumes "new_instance st c names cbn = (Inr info, st')"
  shows "hi_const info = Some c" "hi_id info = next_info st"
    "next_info st' = Suc (next_info st)" "next_wrapper st' = next_wrapper st"
    "cache st' (KConst (c_id c)) = Some info"
    "cbn \<Longrightarrow> n \<in> set (row_names names) \<Longrightarrow> n \<noteq> [] \<Longrightarrow> cache st' (KName n) = Some info"
    "hi_name info = fst names" "hi_iana_name info = fst (snd names)"
    "hi_aliases info = snd (snd names)"
    "cache st' k = Some x \<Longrightarrow> x = info \<or> cache st k = Some x"
proof -
  from assms obtain st1 where
    init: "HashInfo_init (next_info st) (Some c) names = Inr info" and
    st1: "st1 = st\<lparr>next_info := Suc (next_info st),
                  cache := (cache st)(KConst (c_id c) \<mapsto> info)\<rparr>" and
    rest: "if cbn then cache_names info (row_names names) st1 = (None, st') else st' = st1"
    by (auto simp: new_instance_def Let_def split: sum.splits if_splits prod.splits option.splits)
  from init show "hi_const info = Some c" "hi_id info = next_info st"
    "hi_name info = fst names" "hi_iana_name info = fst (snd names)"
    "hi_aliases info = snd (snd names)"
    using HashInfo_init_Some by blast+
  from rest st1 show "next_info st' = Suc (next_info st)" "next_wrapper st' = next_wrapper st"
    by (auto split: if_splits dest: cache_names_frame)
  from rest st1 show "cache st' (KConst (c_id c)) = Some info"
    by (auto split: if_splits dest: cache_names_frame)
  from rest show "cbn \<Longrightarrow> n \<in> set (row_names names) \<Longrightarrow> n \<noteq> [] \<Longrightarrow> cache st' (KName n) = Some info"
    by (auto dest: cache_names_written)
  from rest st1 show "cache st' k = Some x \<Longrightarrow> x = info \<or> cache st k = Some x"
    by (auto split: if_splits dest: cache_names_entries)
qed

lemma lookup_hash_Info [simp]:
  "lookup_hash p (Suc d) st (Info i) ru = (Inr i, st)"
  by (simp add: cache_get_def)

lemma lookup_hash_Other [simp]:
  "lookup_hash p (Suc d) st Other ru = (Inl ExpectedTypeError, st)"
  by (simp add: cache_get_def)

lemma lookup_hash_cached:
  "lookup_hash p depth st digest ru = (Inr info, st') \<Longrightarrow> \<not> ru \<or> hi_const info \<noteq> None \<Longrightarrow>
     cache_get st' digest = Some info \<or> (digest = Info info \<and> st' = st)"
proof (induction depth arbitrary: st digest info st')
  case 0
  then show ?case by simp
next
  case (Suc depth)
  show ?case
  proof (cases "cache_get st digest")
    case (Some a)
    with Suc.prems show ?thesis by simp
  next
    case None
    show ?thesis
    proof (cases digest)
      case (Name s)
      let ?nl = "get_hash_aliases s"
      from Suc.prems None Name have ne: "fst ?nl \<noteq> []"
        by (auto simp: Let_def split: if_splits)
      show ?thesis
      proof (cases "fst ?nl = s")
        case True
        with Suc.prems None Name ne
        have lc: "lookup_canonical p st ?nl ru = (Inr info, st')"
          by (simp add: Let_def)
        obtain oc st1 where g: "get_hash_const p st (fst ?nl) = (oc, st1)" by force
        from lc g Suc.prems(2) obtain c where
          "new_instance st1 c ?nl True = (Inr info, st')"
          by (auto simp: lookup_canonical_def HashInfo_init_def split: option.splits if_splits)
        from new_instance_Inr(6)[OF this, of s] True ne
        have "cache st' (KName s) = Some info" by (simp add: row_names_def)
        with Name show ?thesis by (simp add: cache_get_def)
      next
        case False
        with Suc.prems None Name ne
        have "reuse_info s ru (lookup_hash p depth st (Name (fst ?nl)) ru) = (Inr info, st')"
          by (simp add: Let_def)
        with Suc.prems(2) have "cache st' (KName s) = Some info"
          by (auto simp: reuse_info_def split: prod.splits sum.splits if_splits)
        with Name show ?thesis by (simp add: cache_get_def)
      qed
    next
      case (Info i)
      with Suc.prems show ?thesis by (simp add: cache_get_def)
    next
      case (Const c)
      with Suc.prems None have "lookup_callable p st c = (Inr info, st')" by simp
      then obtain st1 cbn where "new_instance st1 c (get_hash_aliases (c_name c)) cbn = (Inr info, st')"
        by (auto simp: lookup_callable_def Let_def split: prod.splits)
      from new_instance_Inr(5)[OF this] Const show ?thesis by (simp add: cache_get_def)
    next
      case Other
      with Suc.prems show ?thesis by (simp add: cache_get_def)
    qed
  qed
qed

lemma lookup_hash_stable:
  assumes "lookup_hash p depth st digest ru = (Inr info, st')" "\<not> ru \<or> hi_const info \<noteq> None"
  shows "lookup_hash p (Suc d) st' digest ru' = (Inr info, st')"
  using lookup_hash_cached[OF assms] by (auto simp: cache_get_def)

lemma lookup_hash_depth_pos:
  "lookup_hash p depth st digest ru = (Inr info, st') \<Longrightarrow> \<exists>d. depth = Suc d"
  by (cases depth) auto

declare lookup_hash.simps(2) [simp del]

section \<open>PBKDF1\<close>

lemma pbkdf1_loop_funpow: "pbkdf1_loop c n b = (H c ^^ n) b"
  by (induction n arbitrary: b) (simp_all add: funpow_swap1 H_def)

text \<open>
  Claim C7.  For an identifier that resolves to a record with a constructor, \<open>pbkdf1\<close>
  fails with \<open>ValueError\<close> when \<open>rounds < 1\<close>, whatever \<open>keylen\<close> is; a missing \<open>keylen\<close> is
  the digest size; an explicit \<open>keylen\<close> below 0 or above the digest size fails with
  \<open>ValueError\<close>; otherwise the result is the first \<open>keylen\<close> octets of the digest applied
  \<open>rounds\<close> times to \<open>secret @ salt\<close>.
\<close>

theorem pbkdf1_correct:
  assumes "lookup_hash p depth st digest False = (Inr info, st1)"
    and "hi_const info = Some c" and "hi_digest_size info = Some ds"
  shows "(rounds < 1 \<longrightarrow>
            fst (pbkdf1 p depth st digest secret salt rounds keylen)
              = Inl (ValueError ''rounds must be at least 1'')) \<and>
         (1 \<le> rounds \<longrightarrow>
            fst (pbkdf1 p depth st digest secret salt rounds None)
              = fst (pbkdf1 p depth st digest secret salt rounds (Some (int ds)))) \<and>
         (1 \<le> rounds \<and> k < 0 \<longrightarrow>
            fst (pbkdf1 p depth st digest secret salt rounds (Some k))
              = Inl (ValueError ''keylen must be at least 0'')) \<and>
         (1 \<le> rounds \<and> int ds < k \<longrightarrow>
            fst (pbkdf1 p depth st digest secret salt rounds (Some k))
              = Inl (ValueError ''keylength too large for digest'')) \<and>
         (1 \<le> rounds \<and> 0 \<le> k \<and> k \<le> int ds \<longrightarrow>
            fst (pbkdf1 p depth st digest secret salt rounds (Some k))
              = Inr (take (nat k) ((H c ^^ nat rounds) (secret @ salt))))"
  using assms by (auto simp: pbkdf1_def pbkdf1_loop_funpow)

theorem pbkdf1_correct_witness:
  "fst (pbkdf1 toy_platform 1 initial_state (Info (info_of 0 toy_const)) [1] [2] 0 None)
     = Inl (ValueError ''rounds must be at least 1'') \<and>
   fst (pbkdf1 toy_platform 1 initial_state (Info (info_of 0 toy_const)) [1] [2] 2 (Some 5))
     = Inl (ValueError ''keylength too large for digest'') \<and>
   fst (pbkdf1 toy_platform 1 initial_state (Info (info_of 0 toy_const)) [1] [2] 2 (Some 3))
     = Inr (take 3 ((H toy_const ^^ 2) ([1] @ [2])))"
proof -
  have l: "lookup_hash toy_platform 1 initial_state (Info (info_of 0 toy_const)) False
             = (Inr (info_of 0 toy_const), initial_state)"
    by simp
  have c: "hi_const (info_of 0 toy_const) = Some toy_const"
    and d: "hi_digest_size (info_of 0 toy_const) = Some 4"
    by (simp_all add: info_of_def toy_const_def toy_def)
  show ?thesis
    using pbkdf1_correct[OF l c d, where rounds = 0 and keylen = None
              and secret = "[1]" and salt = "[2]"]
          pbkdf1_correct[OF l c d, where rounds = 2 and k = 5
              and secret = "[1]" and salt = "[2]"]
          pbkdf1_correct[OF l c d, where rounds = 2 and k = 3
              and secret = "[1]" and salt = "[2]"]
    by simp
qed

end
